theory Spec2Isabelle
  imports Complex_Main "HOL-Library.Log_Nat"
begin

section \<open>The mph Meter configurator: model of \<open>mph_meter_configurator.py\<close>\<close>

text \<open>
  The model covers the class \<open>MphMeter\<close> (lines 82 to 228 of the source): the serial
  transport \<open>_runcmd\<close>, the value programmer \<open>_setvalue\<close> with its three callers,
  \<open>connect\<close>, \<open>disconnect\<close>, \<open>read\<close>, \<open>set_defaults\<close> and \<open>flash_fw\<close>.
  Python strings and byte strings are \<open>string\<close>; every character that occurs has a code
  point below 256. Exceptions are values of the type \<open>error\<close>; a method that may raise
  returns \<open>error + result\<close> together with the state of the serial port it leaves.
\<close>

subsection \<open>Python values\<close>

text \<open>
  A finite float is carried as the rational number it denotes, so the two zeros \<open>0.0\<close>
  and \<open>-0.0\<close>, which compare equal, are one value. Arithmetic on floats rounds the exact
  result to the nearest double (\<open>round_double\<close> below).
\<close>

datatype pyfloat = Fin rat | PInf | NInf | NaN

text \<open>The numbers a caller passes to the setters.\<close>

datatype pynum = PyInt int | PyFloat pyfloat

text \<open>The elements of the list that \<open>read\<close> builds: converted fields and raw strings.\<close>

datatype pyval = VInt int | VFloat pyfloat | VStr string

subsection \<open>Strings\<close>

definition digit_char :: "nat \<Rightarrow> char" where
  "digit_char n = ''0123456789'' ! (n mod 10)"

function str_nat :: "nat \<Rightarrow> string" where
  "str_nat n = (if n < 10 then [digit_char n] else str_nat (n div 10) @ [digit_char (n mod 10)])"
  by pat_completeness auto
termination
  by (relation "measure id") auto

declare str_nat.simps [simp del]

text \<open>The decimal text of an int \<open>n\<close>, as \<open>'{}'.format(n)\<close> gives it for a small one.\<close>

definition str_int :: "int \<Rightarrow> string" where
  "str_int i = (if i < 0 then CHR ''-'' # str_nat (nat (- i)) else str_nat (nat i))"

text \<open>
  The interpreter refuses to convert between an int and a decimal text of more than
  \<open>sys.int_info.default_max_str_digits\<close> digits, in both directions, with
  \<open>ValueError\<close>; the sign is not counted. (An interpreter older than this limit
  converts every int; what is proved below about ints within the limit holds there too.)
\<close>

definition int_max_str_digits :: nat where
  "int_max_str_digits = 4300"

definition ndigits :: "int \<Rightarrow> nat" where
  "ndigits i = length (str_nat (nat \<bar>i\<bar>))"

text \<open>The characters \<open>str.strip()\<close> removes from an ASCII string: code points 9 to 13, 28 to 32.\<close>

definition is_space :: "char \<Rightarrow> bool" where
  "is_space c = (let n = (of_char c :: nat) in (9 \<le> n \<and> n \<le> 13) \<or> (28 \<le> n \<and> n \<le> 32))"

definition strip :: "string \<Rightarrow> string" where
  "strip s = rev (dropWhile is_space (rev (dropWhile is_space s)))"

text \<open>
  The characters \<open>int()\<close> and \<open>float()\<close> skip around an ASCII argument are fewer:
  code points 9 to 13 and 32.
\<close>

definition is_c_space :: "char \<Rightarrow> bool" where
  "is_c_space c = (let n = (of_char c :: nat) in (9 \<le> n \<and> n \<le> 13) \<or> n = 32)"

definition c_strip :: "string \<Rightarrow> string" where
  "c_strip s = rev (dropWhile is_c_space (rev (dropWhile is_c_space s)))"

text \<open>\<open>bytes.decode('ascii', errors='ignore')\<close>: bytes from 128 up are dropped.\<close>

definition decode_ascii :: "string \<Rightarrow> string" where
  "decode_ascii bs = filter (\<lambda>c. (of_char c :: nat) < 128) bs"

text \<open>\<open>str.split(sep)\<close> for a separator of one character: never an empty list.\<close>

fun split :: "char \<Rightarrow> string \<Rightarrow> string list" where
  "split sep [] = [[]]"
| "split sep (c # cs) =
     (if c = sep then [] # split sep cs
      else (case split sep cs of [] \<Rightarrow> [[c]] | w # ws \<Rightarrow> (c # w) # ws))"

definition hex_digit :: "nat \<Rightarrow> char" where
  "hex_digit n = ''0123456789abcdef'' ! (n mod 16)"

text \<open>
  \<open>repr\<close> of a string: single quotes unless the text has a single and no double quote;
  the quote and the backslash are escaped, tab, newline and return get their letter
  escapes, other unprintable characters the \<open>\x\<close> form.
\<close>

definition repr_char :: "char \<Rightarrow> char \<Rightarrow> string" where
  "repr_char q c =
     (let n = (of_char c :: nat) in
      if c = q \<or> n = 92 then [CHR 92, c]
      else if n = 9 then [CHR 92, CHR ''t'']
      else if n = 10 then [CHR 92, CHR ''n'']
      else if n = 13 then [CHR 92, CHR ''r'']
      else if n < 32 \<or> (127 \<le> n \<and> n \<le> 160) \<or> n = 173
        then [CHR 92, CHR ''x'', hex_digit (n div 16), hex_digit n]
      else [c])"

definition repr :: "string \<Rightarrow> string" where
  "repr s =
     (let q = (if CHR 39 \<in> set s \<and> CHR 34 \<notin> set s then CHR 34 else CHR 39)
      in q # concat (map (repr_char q) s) @ [q])"

subsection \<open>Floats\<close>

definition pow2 :: "int \<Rightarrow> rat" where
  "pow2 k = (if 0 \<le> k then 2 ^ nat k else 1 / 2 ^ nat (- k))"

text \<open>Rounding a rational to the nearest integer, ties to the even one.\<close>

definition round_half_even :: "rat \<Rightarrow> int" where
  "round_half_even y =
     (let f = \<lfloor>y\<rfloor>; r = y - of_int f in
      if r < 1 / 2 then f else if 1 / 2 < r then f + 1
      else if even f then f else f + 1)"

text \<open>
  The double nearest to a rational (IEEE 754 binary64, round to nearest, ties to even):
  53 significant bits, least exponent \<open>-1074\<close>, overflow to infinity from \<open>2 ^ 1024\<close>.
\<close>

definition round_double :: "rat \<Rightarrow> pyfloat" where
  "round_double x =
     (if x = 0 then Fin 0
      else
        let a = \<bar>x\<bar>;
            (n, d) = quotient_of a;
            k = bitlen n - bitlen d;
            e = (if pow2 k \<le> a then k else k - 1);
            q = max (e - 52) (- 1074);
            m = round_half_even (a / pow2 q)
        in if 1024 < q + bitlen m then (if 0 < x then PInf else NInf)
           else Fin (sgn x * of_int m * pow2 q))"

text \<open>\<open>value * 1000\<close> and \<open>value / 1000\<close> for a float \<open>value\<close>.\<close>

fun fmul1000 :: "pyfloat \<Rightarrow> pyfloat" where
  "fmul1000 (Fin x) = round_double (x * 1000)"
| "fmul1000 f = f"

fun fdiv1000 :: "pyfloat \<Rightarrow> pyfloat" where
  "fdiv1000 (Fin x) = round_double (x / 1000)"
| "fdiv1000 f = f"

text \<open>Truncation towards zero, as \<open>int()\<close> does on a float.\<close>

definition trunc :: "rat \<Rightarrow> int" where
  "trunc x = (if 0 \<le> x then \<lfloor>x\<rfloor> else - \<lfloor>- x\<rfloor>)"

subsection \<open>\<open>int()\<close> and \<open>float()\<close> on strings\<close>

definition is_digit :: "char \<Rightarrow> bool" where
  "is_digit c = (let n = (of_char c :: nat) in 48 \<le> n \<and> n \<le> 57)"

definition digit_val :: "char \<Rightarrow> nat" where
  "digit_val c = of_char c - 48"

text \<open>
  A digit part: decimal digits, single underscores allowed between two digits. The flag
  says that the character before was a digit.
\<close>

fun digits_from :: "bool \<Rightarrow> nat \<Rightarrow> string \<Rightarrow> nat option" where
  "digits_from prev acc [] = (if prev then Some acc else None)"
| "digits_from prev acc (c # cs) =
     (if is_digit c then digits_from True (acc * 10 + digit_val c) cs
      else if c = CHR ''_'' \<and> prev then digits_from False acc cs
      else None)"

definition digitpart :: "string \<Rightarrow> nat option" where
  "digitpart s = digits_from False 0 s"

text \<open>
  The digit part of an int literal: a digit part with no more digit characters than the
  limit; leading zeros count, underscores do not.
\<close>

definition int_digits :: "string \<Rightarrow> nat option" where
  "int_digits t =
     (if int_max_str_digits < length (filter is_digit t) then None else digitpart t)"

text \<open>\<open>int(s)\<close> for a string: \<open>None\<close> stands for the \<open>ValueError\<close>.\<close>

definition py_int :: "string \<Rightarrow> int option" where
  "py_int s =
     (case c_strip s of
        [] \<Rightarrow> None
      | c # cs \<Rightarrow>
          if c = CHR ''-'' then map_option (\<lambda>n. - int n) (int_digits cs)
          else if c = CHR ''+'' then map_option int (int_digits cs)
          else map_option int (int_digits (c # cs)))"

definition lower :: "char \<Rightarrow> char" where
  "lower c = (let n = (of_char c :: nat) in if 65 \<le> n \<and> n \<le> 90 then char_of (n + 32) else c)"

definition is_digit_or_us :: "char \<Rightarrow> bool" where
  "is_digit_or_us c = (is_digit c \<or> c = CHR ''_'')"

text \<open>The exponent part of a float literal, \<open>None\<close> when malformed.\<close>

definition exponent :: "string \<Rightarrow> int option" where
  "exponent r =
     (case r of
        [] \<Rightarrow> Some 0
      | c # cs \<Rightarrow>
          if c = CHR ''e'' \<or> c = CHR ''E'' then
            (case cs of
               [] \<Rightarrow> None
             | d # ds \<Rightarrow>
                 if d = CHR ''-'' then map_option (\<lambda>n. - int n) (digitpart ds)
                 else if d = CHR ''+'' then map_option int (digitpart ds)
                 else map_option int (digitpart cs))
          else None)"

definition pow10 :: "int \<Rightarrow> rat" where
  "pow10 k = (if 0 \<le> k then 10 ^ nat k else 1 / 10 ^ nat (- k))"

text \<open>
  The unsigned decimal number of a float literal: integer digits, an optional point with
  fraction digits, an optional exponent; at least one digit before the exponent.
\<close>

definition decimal :: "string \<Rightarrow> rat option" where
  "decimal r =
     (let ip = takeWhile is_digit_or_us r;
          r1 = dropWhile is_digit_or_us r;
          dot = (r1 \<noteq> [] \<and> hd r1 = CHR ''.'');
          fp = (if dot then takeWhile is_digit_or_us (tl r1) else []);
          r2 = (if dot then dropWhile is_digit_or_us (tl r1) else r1);
          iv = (if ip = [] then Some 0 else digitpart ip);
          fv = (if fp = [] then Some 0 else digitpart fp);
          k = length (filter is_digit fp)
      in if ip = [] \<and> fp = [] then None
         else case (iv, fv, exponent r2) of
                (Some i, Some f, Some e) \<Rightarrow>
                  Some ((of_nat i * 10 ^ k + of_nat f) * pow10 (e - int k))
              | _ \<Rightarrow> None)"

text \<open>
  \<open>float(s)\<close> for a string: \<open>None\<close> stands for the \<open>ValueError\<close>. The words
  \<open>inf\<close>, \<open>infinity\<close> and \<open>nan\<close> are accepted in any case, with a sign. The number
  of digits is not limited.
\<close>

definition unsigned_float :: "bool \<Rightarrow> string \<Rightarrow> pyfloat option" where
  "unsigned_float neg r =
     (let w = map lower r in
      if w = ''inf'' \<or> w = ''infinity'' then Some (if neg then NInf else PInf)
      else if w = ''nan'' then Some NaN
      else map_option (\<lambda>x. round_double (if neg then - x else x)) (decimal r))"

definition py_float :: "string \<Rightarrow> pyfloat option" where
  "py_float s =
     (case c_strip s of
        [] \<Rightarrow> None
      | c # cs \<Rightarrow>
          if c = CHR ''-'' then unsigned_float True cs
          else if c = CHR ''+'' then unsigned_float False cs
          else unsigned_float False (c # cs))"

subsection \<open>Exceptions\<close>

text \<open>
  \<open>BoundaryError\<close> and \<open>ReplyError\<close> carry their attributes \<open>text\<close> and
  \<open>value\<close>. The others are built-in exceptions: \<open>ValueError\<close> and
  \<open>OverflowError\<close> from the formatting of a command, \<open>UnicodeEncodeError\<close> from the
  encoding of a command, \<open>NameError\<close> from the lookup of an unbound name, \<open>OSError\<close>
  from the start of a process.
\<close>

datatype error =
    NotConnectedError
  | LostConnectionError
  | BoundaryError string pynum
  | ReplyError string "pyval list option"
  | ValueError
  | OverflowError
  | UnicodeEncodeError
  | NameError
  | OSError

subsection \<open>The serial port\<close>

text \<open>
  What is done to the port is recorded in a trace, oldest action first. \<open>PortWrite\<close>
  holds the bytes handed to \<open>write\<close>, \<open>PortRead\<close> the bytes \<open>read_until\<close> returned,
  \<open>PortClose\<close> the name of the port that is closed.
\<close>

datatype io_action =
    PortOpen string
  | PortOpenFailed string
  | PortClose "string option"
  | PortWrite string
  | PortRead string

record serial =
  is_open :: bool
  port :: "string option"
  trace :: "io_action list"

text \<open>\<open>serial.Serial(baudrate=9600, timeout=0.9)\<close>: no port name, closed.\<close>

definition init :: serial where
  "init = \<lparr>is_open = False, port = None, trace = []\<rparr>"

text \<open>
  What the line does during one exchange: \<open>write\<close> raises \<open>SerialException\<close>;
  \<open>flush\<close> or \<open>read_until\<close> raises it after the bytes were written; or
  \<open>read_until\<close> returns bytes, a line that ends in the terminator or whatever had
  arrived when the read timeout of 0.9 seconds expired (possibly nothing).
\<close>

datatype io_event = WriteFault | ReadFault | Received string

definition close :: "serial \<Rightarrow> serial" where
  "close s = s\<lparr>is_open := False, trace := trace s @ [PortClose (port s)]\<rparr>"

definition newline :: char where
  "newline = CHR 10"

text \<open>\<open>str.encode('ascii')\<close> succeeds on code points below 128 only.\<close>

definition is_ascii :: "string \<Rightarrow> bool" where
  "is_ascii t = list_all (\<lambda>c. (of_char c :: nat) < 128) t"

text \<open>
  The encoding of the command is inside the \<open>try\<close> block, but its error is not a
  \<open>SerialException\<close>: it leaves \<open>_runcmd\<close> with the port as it was.
\<close>

definition runcmd :: "io_event \<Rightarrow> string \<Rightarrow> serial \<Rightarrow> (error + string) \<times> serial" where
  "runcmd ev cmd s =
     (if \<not> is_open s then (Inl NotConnectedError, s)
      else if \<not> is_ascii cmd then (Inl UnicodeEncodeError, s)
      else case ev of
        WriteFault \<Rightarrow> (Inl LostConnectionError, close s)
      | ReadFault \<Rightarrow>
          (Inl LostConnectionError,
           close (s\<lparr>trace := trace s @ [PortWrite (cmd @ [newline])]\<rparr>))
      | Received bs \<Rightarrow>
          (Inr (strip (decode_ascii bs)),
           s\<lparr>trace := trace s @ [PortWrite (cmd @ [newline]), PortRead bs]\<rparr>))"

subsection \<open>Programming a value\<close>

text \<open>The chained comparison \<open>b_low <= value <= b_high\<close> of an int bound with a number.\<close>

fun int_le_num :: "int \<Rightarrow> pynum \<Rightarrow> bool" where
  "int_le_num b (PyInt n) = (b \<le> n)"
| "int_le_num b (PyFloat (Fin x)) = (of_int b \<le> x)"
| "int_le_num b (PyFloat PInf) = True"
| "int_le_num b (PyFloat NInf) = False"
| "int_le_num b (PyFloat NaN) = False"

fun num_le_int :: "pynum \<Rightarrow> int \<Rightarrow> bool" where
  "num_le_int (PyInt n) b = (n \<le> b)"
| "num_le_int (PyFloat (Fin x)) b = (x \<le> of_int b)"
| "num_le_int (PyFloat PInf) b = False"
| "num_le_int (PyFloat NInf) b = True"
| "num_le_int (PyFloat NaN) b = False"

text \<open>
  \<open>'{:d}'.format(n)\<close> and \<open>'{}'.format(n)\<close> for an int \<open>n\<close>, with the limit on the
  number of digits.
\<close>

definition fmt_int :: "int \<Rightarrow> error + string" where
  "fmt_int i = (if int_max_str_digits < ndigits i then Inl ValueError else Inr (str_int i))"

text \<open>The text of a \<open>BoundaryError\<close>; the two bounds are formatted into it.\<close>

definition boundary_text :: "string \<Rightarrow> int \<Rightarrow> int \<Rightarrow> string \<Rightarrow> error + string" where
  "boundary_text name b_low b_high unit =
     (case fmt_int b_low of
        Inl e \<Rightarrow> Inl e
      | Inr lo \<Rightarrow>
          (case fmt_int b_high of
             Inl e \<Rightarrow> Inl e
           | Inr hi \<Rightarrow>
               Inr (name @ '' must be between '' @ lo @ unit @ '' and '' @ hi @ unit @ ''!'')))"

definition setvalue ::
  "string \<Rightarrow> pynum \<Rightarrow> string \<Rightarrow> int \<Rightarrow> int \<Rightarrow> string \<Rightarrow> io_event \<Rightarrow> serial
     \<Rightarrow> (error + unit) \<times> serial" where
  "setvalue cmd val name b_low b_high unit ev s =
     (if \<not> is_open s then (Inl NotConnectedError, s)
      else if \<not> (int_le_num b_low val \<and> num_le_int val b_high)
        then (case boundary_text name b_low b_high unit of
                Inl e \<Rightarrow> (Inl e, s)
              | Inr txt \<Rightarrow> (Inl (BoundaryError txt val), s))
      else case runcmd ev cmd s of
        (Inl e, s') \<Rightarrow> (Inl e, s')
      | (Inr reply, s') \<Rightarrow>
          if reply = ''ERR''
            then (Inl (ReplyError (''Error setting '' @ name @ '' value'') None), s')
          else if reply = [] then (Inl (ReplyError ''No reply received'' None), s')
          else if reply \<noteq> ''OK''
            then (Inl (ReplyError (''Incorrect reply received: '' @ repr reply) None), s')
          else (Inr (), s'))"

text \<open>\<open>'{:d}'.format(value)\<close>: the format code \<open>d\<close> is refused for a float.\<close>

fun format_d :: "pynum \<Rightarrow> error + string" where
  "format_d (PyInt n) = fmt_int n"
| "format_d (PyFloat f) = Inl ValueError"

text \<open>\<open>value * 1000\<close>: an int stays an int, a float is multiplied as a float.\<close>

fun mul1000 :: "pynum \<Rightarrow> pynum" where
  "mul1000 (PyInt n) = PyInt (n * 1000)"
| "mul1000 (PyFloat f) = PyFloat (fmul1000 f)"

text \<open>\<open>int(x)\<close> for a number: truncation; an infinity and a NaN are refused.\<close>

fun to_int :: "pynum \<Rightarrow> error + int" where
  "to_int (PyInt n) = Inr n"
| "to_int (PyFloat (Fin x)) = Inr (trunc x)"
| "to_int (PyFloat PInf) = Inl OverflowError"
| "to_int (PyFloat NInf) = Inl OverflowError"
| "to_int (PyFloat NaN) = Inl ValueError"

text \<open>The letter \<open>\<mu>\<close> of the parameter name and unit, code point 181.\<close>

definition mu :: char where
  "mu = CHR 0xB5"

text \<open>
  In each setter the command text is an argument of the call of \<open>_setvalue\<close>, so it is
  built, and may raise, before \<open>_setvalue\<close> runs.
\<close>

definition set_debounce :: "pynum \<Rightarrow> io_event \<Rightarrow> serial \<Rightarrow> (error + unit) \<times> serial" where
  "set_debounce val ev s =
     (case format_d val of
        Inl e \<Rightarrow> (Inl e, s)
      | Inr txt \<Rightarrow> setvalue (CHR ''d'' # txt) val ''debounce time (ms)'' 0 999999 ''ms'' ev s)"

definition set_muempp :: "pynum \<Rightarrow> io_event \<Rightarrow> serial \<Rightarrow> (error + unit) \<times> serial" where
  "set_muempp val ev s =
     (case format_d val of
        Inl e \<Rightarrow> (Inl e, s)
      | Inr txt \<Rightarrow>
          setvalue (CHR ''m'' # txt) val (mu # ''m per Pulse'') 0 999999999 (mu # ''m/pulse'') ev s)"

definition set_vcrit :: "pynum \<Rightarrow> io_event \<Rightarrow> serial \<Rightarrow> (error + unit) \<times> serial" where
  "set_vcrit val ev s =
     (case to_int (mul1000 val) of
        Inl e \<Rightarrow> (Inl e, s)
      | Inr mv \<Rightarrow>
          (case fmt_int mv of
             Inl e \<Rightarrow> (Inl e, s)
           | Inr txt \<Rightarrow> setvalue (CHR ''t'' # txt) val ''V(crit)'' 0 15 ''V'' ev s))"

subsection \<open>Connecting\<close>

definition disconnect :: "serial \<Rightarrow> serial" where
  "disconnect s = (if is_open s then close s else s)"

text \<open>
  \<open>connect\<close> reads a module-level name \<open>test\<close> that the source file itself never
  binds. Its binding at the time of the call is the parameter \<open>test\<close>: \<open>Some b\<close> when
  the name is bound to the truth value \<open>b\<close>, \<open>None\<close> when it is unbound, in which case
  the lookup raises \<open>NameError\<close> after the port was opened and leaves it open.
  \<open>open_ok\<close> says whether \<open>open()\<close> succeeds, \<open>ev\<close> is what the line does during the
  identity exchange. The result is the pair \<open>(connected, reason)\<close>; an exception of
  \<open>_runcmd\<close> leaves \<open>connect\<close> as it is.
\<close>

definition connect ::
  "bool option \<Rightarrow> bool \<Rightarrow> io_event \<Rightarrow> string \<Rightarrow> serial
     \<Rightarrow> (error + bool \<times> string) \<times> serial" where
  "connect test open_ok ev p s =
     (let s1 = (disconnect s)\<lparr>port := Some p\<rparr> in
      if \<not> open_ok
        then (Inr (False, ''Could not open serial port''),
              s1\<lparr>trace := trace s1 @ [PortOpenFailed p]\<rparr>)
      else
        let s2 = s1\<lparr>is_open := True, trace := trace s1 @ [PortOpen p]\<rparr> in
        case test of
          None \<Rightarrow> (Inl NameError, s2)
        | Some t \<Rightarrow>
            if t then
              (case runcmd ev ''i'' s2 of
                 (Inl e, s3) \<Rightarrow> (Inl e, s3)
               | (Inr reply, s3) \<Rightarrow>
                   if reply = ''mph Meter'' then (Inr (True, []), s3)
                   else (Inr (False, ''mph Meter did not respond at given serial port''),
                         if is_open s3 then close s3 else s3))
            else (Inr (True, []), s2))"

subsection \<open>Flashing the firmware\<close>

text \<open>
  How the programmer process ends: it cannot be started, it exits with a return code before
  the deadline, or \<open>wait(10)\<close> raises \<open>TimeoutExpired\<close>. The actions on the process are
  recorded: the start with the port it is given, the wait with its deadline in seconds,
  the kill.
\<close>

datatype proc_outcome = NotStarted | Exited int | TimedOut

datatype proc_action = Spawn string | Wait nat | Kill

definition flash_fw :: "string \<Rightarrow> proc_outcome \<Rightarrow> (error + bool) \<times> proc_action list" where
  "flash_fw p out =
     (case out of
        NotStarted \<Rightarrow> (Inl OSError, [])
      | TimedOut \<Rightarrow> (Inr False, [Spawn p, Wait 10, Kill])
      | Exited code \<Rightarrow> (if code \<noteq> 0 then (Inr False, [Spawn p, Wait 10])
                        else (Inr True, [Spawn p, Wait 10])))"

subsection \<open>Defaults\<close>





subsection \<open>Reading the settings\<close>

text \<open>
  The five conversions overwrite the list \<open>parts\<close> element by element, and the
  \<open>ReplyError\<close> of a failed conversion is given that same list.
\<close>

definition convert :: "string list \<Rightarrow> error + pyval list" where
  "convert parts =
     (case parts of
        [f0, f1, f2, f3, f4] \<Rightarrow>
          (let p0 = map VStr parts in
           case py_int f0 of
             None \<Rightarrow> Inl (ReplyError ''Could not convert data.'' (Some p0))
           | Some a \<Rightarrow>
               let p1 = p0[0 := VInt a] in
               (case py_int f1 of
                  None \<Rightarrow> Inl (ReplyError ''Could not convert data.'' (Some p1))
                | Some b \<Rightarrow>
                    let p2 = p1[1 := VInt b]; p3 = p2[2 := VStr f2] in
                    (case py_float f3 of
                       None \<Rightarrow> Inl (ReplyError ''Could not convert data.'' (Some p3))
                     | Some x \<Rightarrow>
                         let p4 = p3[3 := VFloat (fdiv1000 x)] in
                         (case py_float f4 of
                            None \<Rightarrow> Inl (ReplyError ''Could not convert data.'' (Some p4))
                          | Some y \<Rightarrow> Inr (p4[4 := VFloat (fdiv1000 y)])))))
      | _ \<Rightarrow>
          Inl (ReplyError ''Incorrect reply received (Number of items missmatched).''
                 (Some (map VStr parts))))"

definition read :: "io_event \<Rightarrow> serial \<Rightarrow> (error + pyval list) \<times> serial" where
  "read ev s =
     (case runcmd ev ''r'' s of
        (Inl e, s') \<Rightarrow> (Inl e, s')
      | (Inr reply, s') \<Rightarrow> (convert (split CHR '';'' reply), s'))"

subsection \<open>The conversion to millivolts as the specification words it\<close>

text \<open>
  Not taken from the source: the specification's \<open>round(value*1000)\<close> for a float, the
  float product rounded to the nearest integer, for comparison with what \<open>set_vcrit\<close>
  computes. \<open>None\<close> when the product is not finite.
\<close>

definition spec_round_millivolts :: "pyfloat \<Rightarrow> int option" where
  "spec_round_millivolts f =
     (case fmul1000 f of Fin y \<Rightarrow> Some (round_half_even y) | _ \<Rightarrow> None)"

section \<open>Properties\<close>

lemmas string_defs = strip_def decode_ascii_def is_space_def

lemmas parse_defs = py_int_def c_strip_def is_c_space_def int_digits_def int_max_str_digits_def
  digitpart_def is_digit_def digit_val_def

subsection \<open>Command texts\<close>

lemma digit_char_ascii: "(of_char (digit_char n) :: nat) < 128"
proof -
  have "digit_char n \<in> set ''0123456789''"
    unfolding digit_char_def by (rule nth_mem) simp
  then show ?thesis by auto
qed

lemma is_ascii_str_nat: "is_ascii (str_nat n)"
proof (induction n rule: str_nat.induct)
  case (1 n)
  show ?case
  proof (cases "n < 10")
    case True
    then show ?thesis
      by (simp add: str_nat.simps [of n] is_ascii_def digit_char_ascii)
  next
    case False
    with "1" show ?thesis
      by (simp add: str_nat.simps [of n] is_ascii_def digit_char_ascii)
  qed
qed

lemma is_ascii_str_int: "is_ascii (str_int i)"
  using is_ascii_str_nat [of "nat i"] is_ascii_str_nat [of "nat (- i)"]
  by (simp add: str_int_def is_ascii_def)

lemma is_ascii_command: "(of_char c :: nat) < 128 \<Longrightarrow> is_ascii (c # str_int i)"
  using is_ascii_str_int [of i] by (simp add: is_ascii_def)

text \<open>A number below \<open>10 ^ k\<close> has at most \<open>k\<close> digits.\<close>

lemma length_str_nat: "n < 10 ^ k \<Longrightarrow> 0 < k \<Longrightarrow> length (str_nat n) \<le> k"
proof (induction k arbitrary: n)
  case 0
  then show ?case by simp
next
  case (Suc k)
  show ?case
  proof (cases "n < 10")
    case True
    then show ?thesis by (simp add: str_nat.simps [of n])
  next
    case False
    with Suc.prems have small: "n div 10 < 10 ^ k"
      by (simp add: less_mult_imp_div_less mult.commute)
    from False small have "0 < k" by (cases k) auto
    from Suc.IH [OF small this] False show ?thesis
      by (simp add: str_nat.simps [of n])
  qed
qed

lemma ndigits_small: "\<bar>i\<bar> < 10 ^ 10 \<Longrightarrow> ndigits i \<le> int_max_str_digits"
proof -
  assume "\<bar>i\<bar> < 10 ^ 10"
  then have "nat \<bar>i\<bar> < 10 ^ 10" by (simp add: nat_less_iff)
  from length_str_nat [OF this] show ?thesis
    by (simp add: ndigits_def int_max_str_digits_def)
qed

lemma fmt_int_within: "ndigits i \<le> int_max_str_digits \<Longrightarrow> fmt_int i = Inr (str_int i)"
  by (simp add: fmt_int_def)

lemma fmt_int_small: "\<bar>i\<bar> < 10 ^ 10 \<Longrightarrow> fmt_int i = Inr (str_int i)"
  by (simp add: fmt_int_within ndigits_small)

lemma runcmd_closed: "\<not> is_open s \<Longrightarrow> runcmd ev cmd s = (Inl NotConnectedError, s)"
  by (simp add: runcmd_def)

lemma setvalue_closed:
  "\<not> is_open s \<Longrightarrow> setvalue cmd v name lo hi unit ev s = (Inl NotConnectedError, s)"
  by (simp add: setvalue_def)

subsection \<open>Formatting comes before every check\<close>

text \<open>
  Claim C10. For a float argument, \<open>set_debounce\<close> and \<open>set_muempp\<close> fail with the
  \<open>ValueError\<close> of \<open>'{:d}'.format\<close>, whatever the state of the connection and whatever
  the value: the port is left untouched, and the result is neither \<open>NotConnectedError\<close>
  nor \<open>BoundaryError\<close>.
\<close>

theorem C10_format_error_first:
  "set_debounce (PyFloat f) ev s = (Inl ValueError, s) \<and>
   set_muempp (PyFloat f) ev s = (Inl ValueError, s)"
  by (simp add: set_debounce_def set_muempp_def)

text \<open>
  C10 at the value 1000000.5, above both upper bounds, on the closed port \<open>init\<close>.
\<close>

theorem C10_format_error_first_witness:
  "set_debounce (PyFloat (Fin (2000001 / 2))) (Received ''OK'') init = (Inl ValueError, init) \<and>
   set_muempp (PyFloat (Fin (2000001 / 2))) (Received ''OK'') init = (Inl ValueError, init)"
  using C10_format_error_first [of "Fin (2000001 / 2)" "Received ''OK''" init] by simp

subsection \<open>Operations on a closed port\<close>

text \<open>
  Claim C7, as stated, fails: on the closed port \<open>set_muempp(0.5)\<close> and
  \<open>set_vcrit(nan)\<close> raise \<open>ValueError\<close>, not \<open>NotConnectedError\<close>.
\<close>

theorem C7_float_counterexample:
  "\<not> is_open init \<and>
   set_muempp (PyFloat (Fin (1 / 2))) (Received []) init = (Inl ValueError, init) \<and>
   set_vcrit (PyFloat NaN) (Received []) init = (Inl ValueError, init)"
  by (simp add: init_def set_muempp_def set_vcrit_def)

text \<open>
  Claim C7, amended. While the port is closed, \<open>_runcmd\<close> with any command, \<open>read\<close>,
  \<open>set_debounce\<close> and \<open>set_muempp\<close> with any int of at most 4300 digits, and
  \<open>set_vcrit\<close> with any number whose conversion \<open>int(value*1000)\<close> succeeds with an int
  of at most 4300 digits, fail with \<open>NotConnectedError\<close> and leave the port as it was:
  nothing is written, nothing is read.
\<close>

theorem C7_not_connected:
  assumes "\<not> is_open s"
  shows "runcmd ev cmd s = (Inl NotConnectedError, s) \<and>
         read ev s = (Inl NotConnectedError, s) \<and>
         (ndigits n \<le> int_max_str_digits \<longrightarrow>
            set_debounce (PyInt n) ev s = (Inl NotConnectedError, s) \<and>
            set_muempp (PyInt n) ev s = (Inl NotConnectedError, s)) \<and>
         (to_int (mul1000 v) = Inr mv \<and> ndigits mv \<le> int_max_str_digits \<longrightarrow>
            set_vcrit v ev s = (Inl NotConnectedError, s))"
  using assms
  by (simp add: runcmd_closed setvalue_closed read_def set_debounce_def set_muempp_def
      set_vcrit_def fmt_int_within)

text \<open>C7, amended, on the closed port \<open>init\<close> with the value 5.\<close>

theorem C7_not_connected_witness:
  "\<not> is_open init \<and>
   runcmd (Received ''OK'') ''r'' init = (Inl NotConnectedError, init) \<and>
   read (Received ''OK'') init = (Inl NotConnectedError, init) \<and>
   ndigits 5 \<le> int_max_str_digits \<and>
   set_debounce (PyInt 5) (Received ''OK'') init = (Inl NotConnectedError, init) \<and>
   set_muempp (PyInt 5) (Received ''OK'') init = (Inl NotConnectedError, init) \<and>
   to_int (mul1000 (PyInt 5)) = Inr 5000 \<and> ndigits 5000 \<le> int_max_str_digits \<and>
   set_vcrit (PyInt 5) (Received ''OK'') init = (Inl NotConnectedError, init)"
proof -
  have closed: "\<not> is_open init" by (simp add: init_def)
  have d5: "ndigits 5 \<le> int_max_str_digits" by (simp add: ndigits_small)
  have d5000: "ndigits 5000 \<le> int_max_str_digits" by (simp add: ndigits_small)
  show ?thesis
    using closed d5 d5000
      C7_not_connected [OF closed, of "Received ''OK''" "''r''" 5 "PyInt 5" 5000]
    by simp
qed

subsection \<open>Flashing\<close>

text \<open>
  Claim C3, as stated, fails: a timeout and the exit code 1 give the same result
  \<open>False\<close>, and so do the exit codes 1 and 2.
\<close>

theorem C3_timeout_conflated:
  "fst (flash_fw ''COM3'' TimedOut) = fst (flash_fw ''COM3'' (Exited 1)) \<and>
   fst (flash_fw ''COM3'' (Exited 1)) = fst (flash_fw ''COM3'' (Exited 2))"
  by (simp add: flash_fw_def)

text \<open>
  Claim C3, amended. \<open>flash_fw\<close> waits for the process with a deadline of 10 seconds.
  When the deadline passes it kills the process and returns \<open>False\<close>; when the process
  ends in time, the exit code 0 gives \<open>True\<close> and every other exit code gives \<open>False\<close>,
  without the code.
\<close>

theorem C3_flash_outcomes:
  "flash_fw p TimedOut = (Inr False, [Spawn p, Wait 10, Kill]) \<and>
   flash_fw p (Exited 0) = (Inr True, [Spawn p, Wait 10]) \<and>
   (code \<noteq> 0 \<longrightarrow> flash_fw p (Exited code) = (Inr False, [Spawn p, Wait 10]))"
  by (simp add: flash_fw_def)

text \<open>C3, amended, on the port \<open>COM3\<close> with the exit code 1.\<close>

theorem C3_flash_outcomes_witness:
  "flash_fw ''COM3'' TimedOut = (Inr False, [Spawn ''COM3'', Wait 10, Kill]) \<and>
   flash_fw ''COM3'' (Exited 0) = (Inr True, [Spawn ''COM3'', Wait 10]) \<and>
   (1::int) \<noteq> 0 \<and> flash_fw ''COM3'' (Exited 1) = (Inr False, [Spawn ''COM3'', Wait 10])"
  using C3_flash_outcomes [of "''COM3''" 1] by simp

subsection \<open>Reading\<close>

text \<open>
  Claim C5 at the reply \<open>43000;x;1.2;7500;12000\<close>, whose second field does not parse:
  the list given to the \<open>ReplyError\<close> holds the first field as the int 43000, not as the
  string received.
\<close>

theorem C5_payload_partly_converted:
  "read (Received ''43000;x;1.2;7500;12000\<newline>'') (init\<lparr>is_open := True\<rparr>) =
     (Inl (ReplyError ''Could not convert data.''
        (Some [VInt 43000, VStr ''x'', VStr ''1.2'', VStr ''7500'', VStr ''12000''])),
      init\<lparr>is_open := True,
        trace := [PortWrite ''r\<newline>'', PortRead ''43000;x;1.2;7500;12000\<newline>'']\<rparr>)"
  by (simp add: read_def runcmd_def is_ascii_def init_def convert_def newline_def string_defs
      parse_defs)

subsection \<open>One exchange\<close>

lemma round_7500: "round_double 7500 = Fin 7500" by code_simp

lemma str_int_0: "str_int 0 = ''0''"
  by (simp add: str_int_def str_nat.simps digit_char_def)



text \<open>What \<open>_setvalue\<close> does with a value within the bounds, for each event of the line.\<close>

lemma setvalue_in_bounds:
  assumes "is_open s" and "is_ascii cmd" and "int_le_num lo v" and "num_le_int v hi"
  shows "setvalue cmd v name lo hi unit ev s =
     (case ev of
        WriteFault \<Rightarrow>
          (Inl LostConnectionError, s\<lparr>is_open := False, trace := trace s @ [PortClose (port s)]\<rparr>)
      | ReadFault \<Rightarrow>
          (Inl LostConnectionError,
           s\<lparr>is_open := False,
             trace := trace s @ [PortWrite (cmd @ [newline]), PortClose (port s)]\<rparr>)
      | Received bs \<Rightarrow>
          (if strip (decode_ascii bs) = ''ERR''
             then Inl (ReplyError (''Error setting '' @ name @ '' value'') None)
           else if strip (decode_ascii bs) = [] then Inl (ReplyError ''No reply received'' None)
           else if strip (decode_ascii bs) \<noteq> ''OK''
             then Inl (ReplyError (''Incorrect reply received: '' @ repr (strip (decode_ascii bs)))
                    None)
           else Inr (),
           s\<lparr>trace := trace s @ [PortWrite (cmd @ [newline]), PortRead bs]\<rparr>))"
  using assms by (cases ev) (simp_all add: setvalue_def runcmd_def close_def)

lemma setvalue_received:
  "is_open s \<Longrightarrow> is_ascii cmd \<Longrightarrow> int_le_num lo v \<Longrightarrow> num_le_int v hi \<Longrightarrow>
   setvalue cmd v name lo hi unit (Received bs) s =
     ((let reply = strip (decode_ascii bs) in
       if reply = ''ERR'' then Inl (ReplyError (''Error setting '' @ name @ '' value'') None)
       else if reply = [] then Inl (ReplyError ''No reply received'' None)
       else if reply \<noteq> ''OK'' then Inl (ReplyError (''Incorrect reply received: '' @ repr reply) None)
       else Inr ()),
      s\<lparr>trace := trace s @ [PortWrite (cmd @ [newline]), PortRead bs]\<rparr>)"
  by (simp add: setvalue_in_bounds Let_def)




subsection \<open>Defaults\<close>



subsection \<open>Connecting\<close>

text \<open>
  What \<open>connect\<close> does in each case; the port is closed first, if it is open, in all
  of them. When \<open>open()\<close> fails the result is \<open>(False, 'Could not open serial port')\<close>
  and the port stays closed.
\<close>

lemma connect_open_fails:
  "connect test False ev p s =
     (Inr (False, ''Could not open serial port''),
      \<lparr>is_open = False, port = Some p,
       trace = trace s @ (if is_open s then [PortClose (port s)] else []) @ [PortOpenFailed p]\<rparr>)"
  by (simp add: connect_def disconnect_def close_def Let_def)

text \<open>
  With the name \<open>test\<close> unbound, as the source file leaves it, a successful \<open>open()\<close> is
  followed by \<open>NameError\<close>: nothing is sent, and the port stays open.
\<close>

lemma connect_unbound:
  "connect None True ev p s =
     (Inl NameError,
      \<lparr>is_open = True, port = Some p,
       trace = trace s @ (if is_open s then [PortClose (port s)] else []) @ [PortOpen p]\<rparr>)"
  by (simp add: connect_def disconnect_def close_def Let_def)

text \<open>
  Were \<open>test\<close> bound to \<open>True\<close>, the reply to \<open>i\<close> would be compared with
  \<open>mph Meter\<close>, and the port closed when they differ or when the line fails.
\<close>

lemma connect_identity_test:
  "connect (Some True) True ev p s =
     (case ev of
        WriteFault \<Rightarrow>
          (Inl LostConnectionError,
           \<lparr>is_open = False, port = Some p,
            trace = trace s @ (if is_open s then [PortClose (port s)] else []) @
              [PortOpen p, PortClose (Some p)]\<rparr>)
      | ReadFault \<Rightarrow>
          (Inl LostConnectionError,
           \<lparr>is_open = False, port = Some p,
            trace = trace s @ (if is_open s then [PortClose (port s)] else []) @
              [PortOpen p, PortWrite ''i\<newline>'', PortClose (Some p)]\<rparr>)
      | Received bs \<Rightarrow>
          (if strip (decode_ascii bs) = ''mph Meter''
           then (Inr (True, []),
                 \<lparr>is_open = True, port = Some p,
                  trace = trace s @ (if is_open s then [PortClose (port s)] else []) @
                    [PortOpen p, PortWrite ''i\<newline>'', PortRead bs]\<rparr>)
           else (Inr (False, ''mph Meter did not respond at given serial port''),
                 \<lparr>is_open = False, port = Some p,
                  trace = trace s @ (if is_open s then [PortClose (port s)] else []) @
                    [PortOpen p, PortWrite ''i\<newline>'', PortRead bs, PortClose (Some p)]\<rparr>)))"
  by (cases ev)
    (simp_all add: connect_def disconnect_def close_def runcmd_def is_ascii_def newline_def Let_def)

text \<open>Were \<open>test\<close> bound to \<open>False\<close>, the open port would be taken as connected.\<close>

lemma connect_no_test:
  "connect (Some False) True ev p s =
     (Inr (True, []),
      \<lparr>is_open = True, port = Some p,
       trace = trace s @ (if is_open s then [PortClose (port s)] else []) @ [PortOpen p]\<rparr>)"
  by (simp add: connect_def disconnect_def close_def Let_def)

text \<open>
  Claim C8 on the source as it stands, with \<open>COM1\<close> open, \<open>COM3\<close> requested and a
  device that would answer \<open>mph Meter\<close>: \<open>COM1\<close> is closed and \<open>COM3\<close> opened, then the
  lookup of \<open>test\<close> raises \<open>NameError\<close>. The command \<open>i\<close> is not sent, \<open>connect\<close>
  does not return, and the port is left open.
\<close>

theorem C8_unbound_test_raises:
  "connect None True (Received ''mph Meter\<newline>'') ''COM3''
       \<lparr>is_open = True, port = Some ''COM1'', trace = []\<rparr> =
     (Inl NameError,
      \<lparr>is_open = True, port = Some ''COM3'',
       trace = [PortClose (Some ''COM1''), PortOpen ''COM3'']\<rparr>)"
  by (simp add: connect_def disconnect_def close_def Let_def)

subsection \<open>Faults and timeouts of the transport\<close>

text \<open>
  Claim C6, as stated, fails in its last sentence: when the read times out after the
  bytes \<open>OK\<close> arrived without a line terminator, \<open>_runcmd\<close> returns the reply
  \<open>OK\<close>, not the empty string. It also fails for a later operation that cannot build
  its command: after a fault has closed the port, \<open>set_debounce(0.5)\<close> raises
  \<open>ValueError\<close>, not \<open>NotConnectedError\<close>.
\<close>

theorem C6_partial_reply_counterexample:
  "newline \<notin> set ''OK'' \<and>
   fst (runcmd (Received ''OK'') ''d5'' (init\<lparr>is_open := True\<rparr>)) = Inr ''OK'' \<and>
   ''OK'' \<noteq> [] \<and>
   runcmd ReadFault ''r'' (init\<lparr>is_open := True\<rparr>) =
     (Inl LostConnectionError, init\<lparr>trace := [PortWrite ''r\<newline>'', PortClose None]\<rparr>) \<and>
   set_debounce (PyFloat (Fin (1 / 2))) (Received [])
       (init\<lparr>trace := [PortWrite ''r\<newline>'', PortClose None]\<rparr>) =
     (Inl ValueError, init\<lparr>trace := [PortWrite ''r\<newline>'', PortClose None]\<rparr>)"
  by (simp add: runcmd_def is_ascii_def close_def init_def newline_def string_defs
      set_debounce_def)

text \<open>
  Claim C6, amended. When \<open>write\<close>, \<open>flush\<close> or \<open>read_until\<close> raises
  \<open>SerialException\<close> on an open port during an ASCII command, \<open>_runcmd\<close> closes the
  port and raises \<open>LostConnectionError\<close>. In the state it leaves, \<open>_runcmd\<close>, \<open>read\<close>,
  \<open>set_debounce\<close> and \<open>set_muempp\<close> with an int of at most 4300 digits and \<open>set_vcrit\<close>
  with a number whose conversion succeeds with such an int fail with
  \<open>NotConnectedError\<close> and leave the port alone. A read that returns without a fault,
  with a complete line or with whatever arrived before the timeout, gives those bytes,
  decoded and stripped, as the reply, and the port stays open; when no byte arrived the
  reply is the empty string, and no error.
\<close>

theorem C6_fault_disconnects:
  assumes "is_open s" and "is_ascii cmd" and "ev = WriteFault \<or> ev = ReadFault"
    and "runcmd ev cmd s = (r, s')"
  shows "r = Inl LostConnectionError \<and> \<not> is_open s' \<and> last (trace s') = PortClose (port s) \<and>
         runcmd ev2 cmd2 s' = (Inl NotConnectedError, s') \<and>
         read ev2 s' = (Inl NotConnectedError, s') \<and>
         (ndigits n \<le> int_max_str_digits \<longrightarrow>
            set_debounce (PyInt n) ev2 s' = (Inl NotConnectedError, s') \<and>
            set_muempp (PyInt n) ev2 s' = (Inl NotConnectedError, s')) \<and>
         (to_int (mul1000 v) = Inr mv \<and> ndigits mv \<le> int_max_str_digits \<longrightarrow>
            set_vcrit v ev2 s' = (Inl NotConnectedError, s')) \<and>
         runcmd (Received bs) cmd s =
           (Inr (strip (decode_ascii bs)),
            s\<lparr>trace := trace s @ [PortWrite (cmd @ [newline]), PortRead bs]\<rparr>) \<and>
         runcmd (Received []) cmd s =
           (Inr [], s\<lparr>trace := trace s @ [PortWrite (cmd @ [newline]), PortRead []]\<rparr>)"
proof -
  from assms have r: "r = Inl LostConnectionError" and closed: "\<not> is_open s'"
    and tr: "last (trace s') = PortClose (port s)"
    by (auto simp add: runcmd_def close_def)
  from assms(1,2) have reply: "runcmd (Received bs) cmd s =
      (Inr (strip (decode_ascii bs)),
       s\<lparr>trace := trace s @ [PortWrite (cmd @ [newline]), PortRead bs]\<rparr>)"
    by (simp add: runcmd_def)
  from assms(1,2) have empty: "runcmd (Received []) cmd s =
      (Inr [], s\<lparr>trace := trace s @ [PortWrite (cmd @ [newline]), PortRead []]\<rparr>)"
    by (simp add: runcmd_def string_defs)
  from closed r tr reply empty show ?thesis
    by (simp add: runcmd_closed setvalue_closed read_def set_debounce_def set_muempp_def
        set_vcrit_def fmt_int_within)
qed

text \<open>
  C6, amended, for a failing read during the command \<open>r\<close> on a freshly opened port, and
  for the bytes \<open>OK\<close> without a terminator.
\<close>

theorem C6_fault_disconnects_witness:
  "is_open (init\<lparr>is_open := True\<rparr>) \<and> is_ascii ''r'' \<and>
   runcmd ReadFault ''r'' (init\<lparr>is_open := True\<rparr>) =
     (Inl LostConnectionError, init\<lparr>trace := [PortWrite ''r\<newline>'', PortClose None]\<rparr>) \<and>
   \<not> is_open (init\<lparr>trace := [PortWrite ''r\<newline>'', PortClose None]\<rparr>) \<and>
   read (Received ''1;2;3;4;5\<newline>'') (init\<lparr>trace := [PortWrite ''r\<newline>'', PortClose None]\<rparr>) =
     (Inl NotConnectedError, init\<lparr>trace := [PortWrite ''r\<newline>'', PortClose None]\<rparr>) \<and>
   ndigits 5 \<le> int_max_str_digits \<and>
   set_debounce (PyInt 5) (Received ''OK\<newline>'') (init\<lparr>trace := [PortWrite ''r\<newline>'', PortClose None]\<rparr>) =
     (Inl NotConnectedError, init\<lparr>trace := [PortWrite ''r\<newline>'', PortClose None]\<rparr>) \<and>
   runcmd (Received ''OK'') ''r'' (init\<lparr>is_open := True\<rparr>) =
     (Inr ''OK'', init\<lparr>is_open := True, trace := [PortWrite ''r\<newline>'', PortRead ''OK'']\<rparr>) \<and>
   runcmd (Received []) ''r'' (init\<lparr>is_open := True\<rparr>) =
     (Inr [], init\<lparr>is_open := True, trace := [PortWrite ''r\<newline>'', PortRead []]\<rparr>)"
proof -
  have op: "is_open (init\<lparr>is_open := True\<rparr>)" by simp
  have ev: "ReadFault = WriteFault \<or> ReadFault = ReadFault" by simp
  have asc: "is_ascii ''r''" by (simp add: is_ascii_def)
  have d5: "ndigits 5 \<le> int_max_str_digits" by (simp add: ndigits_small)
  have st: "strip (decode_ascii ''OK'') = ''OK''" by (simp add: string_defs)
  have run: "runcmd ReadFault ''r'' (init\<lparr>is_open := True\<rparr>) =
     (Inl LostConnectionError, init\<lparr>trace := [PortWrite ''r\<newline>'', PortClose None]\<rparr>)"
    by (simp add: runcmd_def is_ascii_def close_def init_def newline_def)
  show ?thesis
    using op asc run d5 st
      C6_fault_disconnects [OF op asc ev run, of "Received ''1;2;3;4;5\<newline>''" "''r''" 5
        "PyInt 5" 5000 "''OK''"]
      C6_fault_disconnects [OF op asc ev run, of "Received ''OK\<newline>''" "''r''" 5 "PyInt 5" 5000
        "''OK''"]
    by (simp add: init_def newline_def)
qed

subsection \<open>Decoding the state\<close>

lemma round_15_2: "round_double (15 / 2) = Fin (15 / 2)" by code_simp

lemma round_12000: "round_double 12000 = Fin 12000" by code_simp

lemma round_12: "round_double 12 = Fin 12" by code_simp

lemmas float_defs = py_float_def c_strip_def is_c_space_def unsigned_float_def decimal_def
  exponent_def pow10_def is_digit_or_us_def lower_def digitpart_def is_digit_def digit_val_def

lemma py_float_7500: "py_float ''7500'' = Some (Fin 7500)"
  by (simp add: float_defs round_7500)

lemma py_float_12000: "py_float ''12000'' = Some (Fin 12000)"
  by (simp add: float_defs round_12000)

lemma fdiv1000_cases:
  "fdiv1000 x = (case x of Fin q \<Rightarrow> round_double (q / 1000) | PInf \<Rightarrow> PInf | NInf \<Rightarrow> NInf
                 | NaN \<Rightarrow> NaN)"
  by (cases x) simp_all

lemma convert_five:
  "py_int f0 = Some a \<Longrightarrow> py_int f1 = Some b \<Longrightarrow> py_float f3 = Some x \<Longrightarrow> py_float f4 = Some y \<Longrightarrow>
   convert [f0, f1, f2, f3, f4] =
     Inr [VInt a, VInt b, VStr f2, VFloat (fdiv1000 x), VFloat (fdiv1000 y)]"
  by (simp add: convert_def)

lemma convert_count:
  "length parts \<noteq> 5 \<Longrightarrow>
   convert parts = Inl (ReplyError ''Incorrect reply received (Number of items missmatched).''
                     (Some (map VStr parts)))"
  by (auto simp add: convert_def split: list.splits)

text \<open>
  A field with a character that \<open>str.strip()\<close> removes but \<open>int()\<close> does not skip, here
  code point 28 after the first number, is refused.
\<close>

lemma read_refuses_separator_character:
  "read (Received (''43000'' @ [CHR 0x1C] @ '';0;1.2;7500;12000\<newline>'')) (init\<lparr>is_open := True\<rparr>) =
     (Inl (ReplyError ''Could not convert data.''
        (Some [VStr (''43000'' @ [CHR 0x1C]), VStr ''0'', VStr ''1.2'', VStr ''7500'',
               VStr ''12000''])),
      init\<lparr>is_open := True,
        trace := [PortWrite ''r\<newline>'',
                  PortRead (''43000'' @ [CHR 0x1C] @ '';0;1.2;7500;12000\<newline>'')]\<rparr>)"
  by (simp add: read_def runcmd_def is_ascii_def init_def convert_def newline_def string_defs
      parse_defs)

text \<open>
  Claim C4. On an open port, when the reply to \<open>r\<close>, decoded and stripped, splits at
  the semicolons into five fields of which the first two parse as ints and the last two
  as floats, \<open>read\<close> returns the two ints, the third field as it is, and each of the two
  floats divided by 1000: for a finite \<open>q\<close> the double nearest to \<open>q / 1000\<close>, for an
  infinity or a NaN the same again. When the number of fields is not five it raises
  \<open>ReplyError\<close> with the fields as received, and returns no list.
\<close>

theorem C4_read_decodes:
  assumes "is_open s"
  shows "(split CHR '';'' (strip (decode_ascii bs)) = [f0, f1, f2, f3, f4] \<and>
          py_int f0 = Some a \<and> py_int f1 = Some b \<and>
          py_float f3 = Some x \<and> py_float f4 = Some y \<longrightarrow>
            read (Received bs) s =
              (Inr [VInt a, VInt b, VStr f2,
                    VFloat (case x of Fin q \<Rightarrow> round_double (q / 1000) | PInf \<Rightarrow> PInf
                            | NInf \<Rightarrow> NInf | NaN \<Rightarrow> NaN),
                    VFloat (case y of Fin q \<Rightarrow> round_double (q / 1000) | PInf \<Rightarrow> PInf
                            | NInf \<Rightarrow> NInf | NaN \<Rightarrow> NaN)],
               s\<lparr>trace := trace s @ [PortWrite ''r\<newline>'', PortRead bs]\<rparr>)) \<and>
         (length (split CHR '';'' (strip (decode_ascii bs))) \<noteq> 5 \<longrightarrow>
            read (Received bs) s =
              (Inl (ReplyError ''Incorrect reply received (Number of items missmatched).''
                      (Some (map VStr (split CHR '';'' (strip (decode_ascii bs)))))),
               s\<lparr>trace := trace s @ [PortWrite ''r\<newline>'', PortRead bs]\<rparr>))"
  using assms
  by (simp add: read_def runcmd_def is_ascii_def convert_five convert_count newline_def
      fdiv1000_cases)

text \<open>
  C4 for the replies \<open>43000;0;1.2;7500;12000\<close> and \<open>43000;0;1.2;7500\<close> on a freshly
  opened port.
\<close>

theorem C4_read_decodes_witness:
  "is_open (init\<lparr>is_open := True\<rparr>) \<and>
   read (Received ''43000;0;1.2;7500;12000\<newline>'') (init\<lparr>is_open := True\<rparr>) =
     (Inr [VInt 43000, VInt 0, VStr ''1.2'', VFloat (Fin (15 / 2)), VFloat (Fin 12)],
      init\<lparr>is_open := True,
        trace := [PortWrite ''r\<newline>'', PortRead ''43000;0;1.2;7500;12000\<newline>'']\<rparr>) \<and>
   read (Received ''43000;0;1.2;7500\<newline>'') (init\<lparr>is_open := True\<rparr>) =
     (Inl (ReplyError ''Incorrect reply received (Number of items missmatched).''
        (Some [VStr ''43000'', VStr ''0'', VStr ''1.2'', VStr ''7500''])),
      init\<lparr>is_open := True,
        trace := [PortWrite ''r\<newline>'', PortRead ''43000;0;1.2;7500\<newline>'']\<rparr>)"
proof -
  have op: "is_open (init\<lparr>is_open := True\<rparr>)" by simp
  have sp: "split CHR '';'' (strip (decode_ascii ''43000;0;1.2;7500;12000\<newline>'')) =
      [''43000'', ''0'', ''1.2'', ''7500'', ''12000'']"
    by (simp add: string_defs)
  have sp4: "split CHR '';'' (strip (decode_ascii ''43000;0;1.2;7500\<newline>'')) =
      [''43000'', ''0'', ''1.2'', ''7500'']"
    by (simp add: string_defs)
  have i0: "py_int ''43000'' = Some 43000" and i1: "py_int ''0'' = Some 0"
    by (simp_all add: parse_defs)
  have d3: "round_double (7500 / 1000) = Fin (15 / 2)" and d4: "round_double (12000 / 1000) = Fin 12"
    by (simp_all add: round_15_2 round_12)
  show ?thesis
    using op sp sp4 i0 i1 py_float_7500 py_float_12000 d3 d4
      C4_read_decodes [OF op, of "''43000;0;1.2;7500;12000\<newline>''" "''43000''" "''0''" "''1.2''"
        "''7500''" "''12000''" 43000 0 "Fin 7500" "Fin 12000"]
      C4_read_decodes [OF op, of "''43000;0;1.2;7500\<newline>''" "''43000''" "''0''" "''1.2''"
        "''7500''" "''12000''" 43000 0 "Fin 7500" "Fin 12000"]
    by (simp add: init_def)
qed

subsection \<open>Bounds\<close>

lemma round_15000: "round_double 15000 = Fin 15000" by code_simp

lemma round_0: "round_double 0 = Fin 0" by (simp add: round_double_def)

lemma setvalue_sent:
  assumes "is_open s" and "is_ascii cmd" and "int_le_num lo v" and "num_le_int v hi"
  shows "snd (setvalue cmd v name lo hi unit (Received bs) s) =
           s\<lparr>trace := trace s @ [PortWrite (cmd @ [newline]), PortRead bs]\<rparr> \<and>
         (strip (decode_ascii bs) = ''OK'' \<longrightarrow>
            fst (setvalue cmd v name lo hi unit (Received bs) s) = Inr ())"
  using assms by (simp add: setvalue_received Let_def)

lemma setvalue_out_of_bounds:
  "is_open s \<Longrightarrow> \<not> (int_le_num lo v \<and> num_le_int v hi) \<Longrightarrow>
   boundary_text name lo hi unit = Inr txt \<Longrightarrow>
   setvalue cmd v name lo hi unit ev s = (Inl (BoundaryError txt v), s)"
  by (simp add: setvalue_def)

lemma boundary_text_debounce:
  "boundary_text ''debounce time (ms)'' 0 999999 ''ms'' =
     Inr ''debounce time (ms) must be between 0ms and 999999ms!''"
  by (simp add: boundary_text_def fmt_int_small str_int_def str_nat.simps digit_char_def)

lemma boundary_text_muempp:
  "boundary_text (mu # ''m per Pulse'') 0 999999999 (mu # ''m/pulse'') =
     Inr (mu # ''m per Pulse must be between 0'' @ mu # ''m/pulse and 999999999'' @ mu # ''m/pulse!'')"
  by (simp add: boundary_text_def fmt_int_small str_int_def str_nat.simps digit_char_def)

lemma boundary_text_vcrit:
  "boundary_text ''V(crit)'' 0 15 ''V'' = Inr ''V(crit) must be between 0V and 15V!''"
  by (simp add: boundary_text_def fmt_int_small str_int_def str_nat.simps digit_char_def)

lemma set_debounce_rejects:
  "is_open s \<Longrightarrow> n < 0 \<or> 999999 < n \<Longrightarrow> ndigits n \<le> int_max_str_digits \<Longrightarrow>
   set_debounce (PyInt n) ev s =
     (Inl (BoundaryError ''debounce time (ms) must be between 0ms and 999999ms!'' (PyInt n)), s)"
  by (auto simp add: set_debounce_def fmt_int_within
      setvalue_out_of_bounds [OF _ _ boundary_text_debounce])

lemma set_muempp_rejects:
  "is_open s \<Longrightarrow> n < 0 \<or> 999999999 < n \<Longrightarrow> ndigits n \<le> int_max_str_digits \<Longrightarrow>
   set_muempp (PyInt n) ev s =
     (Inl (BoundaryError
        (mu # ''m per Pulse must be between 0'' @ mu # ''m/pulse and 999999999'' @ mu # ''m/pulse!'')
        (PyInt n)), s)"
  by (auto simp add: set_muempp_def fmt_int_within
      setvalue_out_of_bounds [OF _ _ boundary_text_muempp])

lemma set_vcrit_rejects:
  "is_open s \<Longrightarrow> to_int (mul1000 v) = Inr mv \<Longrightarrow> ndigits mv \<le> int_max_str_digits \<Longrightarrow>
   \<not> (int_le_num 0 v \<and> num_le_int v 15) \<Longrightarrow>
   set_vcrit v ev s = (Inl (BoundaryError ''V(crit) must be between 0V and 15V!'' v), s)"
  by (simp add: set_vcrit_def fmt_int_within setvalue_out_of_bounds [OF _ _ boundary_text_vcrit])

lemma set_debounce_sent:
  assumes "is_open s" and "0 \<le> n" and "n \<le> 999999"
  shows "snd (set_debounce (PyInt n) (Received bs) s) =
           s\<lparr>trace := trace s @ [PortWrite (CHR ''d'' # str_int n @ [newline]), PortRead bs]\<rparr> \<and>
         (strip (decode_ascii bs) = ''OK'' \<longrightarrow> fst (set_debounce (PyInt n) (Received bs) s) = Inr ())"
  using assms by (simp add: set_debounce_def fmt_int_small setvalue_sent is_ascii_command)

lemma set_muempp_sent:
  assumes "is_open s" and "0 \<le> n" and "n \<le> 999999999"
  shows "snd (set_muempp (PyInt n) (Received bs) s) =
           s\<lparr>trace := trace s @ [PortWrite (CHR ''m'' # str_int n @ [newline]), PortRead bs]\<rparr> \<and>
         (strip (decode_ascii bs) = ''OK'' \<longrightarrow> fst (set_muempp (PyInt n) (Received bs) s) = Inr ())"
  using assms by (simp add: set_muempp_def fmt_int_small setvalue_sent is_ascii_command)

lemma set_vcrit_sent:
  assumes "is_open s" and "int_le_num 0 v" and "num_le_int v 15"
    and "to_int (mul1000 v) = Inr mv" and "ndigits mv \<le> int_max_str_digits"
  shows "snd (set_vcrit v (Received bs) s) =
           s\<lparr>trace := trace s @ [PortWrite (CHR ''t'' # str_int mv @ [newline]), PortRead bs]\<rparr> \<and>
         (strip (decode_ascii bs) = ''OK'' \<longrightarrow> fst (set_vcrit v (Received bs) s) = Inr ())"
  using assms by (simp add: set_vcrit_def fmt_int_within setvalue_sent is_ascii_command)

text \<open>
  Claim C1, as stated for every value, fails: on an open port \<open>set_debounce(1000000.5)\<close>,
  a value above the upper bound, raises the \<open>ValueError\<close> of the format code, not
  \<open>BoundaryError\<close>.
\<close>

theorem C1_float_counterexample:
  "is_open (init\<lparr>is_open := True\<rparr>) \<and>
   \<not> num_le_int (PyFloat (Fin (2000001 / 2))) 999999 \<and>
   set_debounce (PyFloat (Fin (2000001 / 2))) (Received ''OK\<newline>'') (init\<lparr>is_open := True\<rparr>) =
     (Inl ValueError, init\<lparr>is_open := True\<rparr>)"
  by (simp add: set_debounce_def)

text \<open>
  Claim C1, amended. On an open port: \<open>set_debounce\<close> and \<open>set_muempp\<close> with an int of
  at most 4300 digits below 0 or above the upper bound (999999, 999999999), and
  \<open>set_vcrit\<close> with a number outside 0 to 15 whose conversion \<open>int(value*1000)\<close>
  succeeds with an int of at most 4300 digits, raise \<open>BoundaryError\<close> with the text that
  names both bounds and with the value, and leave the port untouched. With the value equal
  to a bound (0 or the upper bound, for \<open>set_vcrit\<close> as an int or as a float) the command
  is written and the reply read, and the reply \<open>OK\<close> makes the call succeed.
\<close>

theorem C1_bounds_inclusive:
  assumes "is_open s"
  shows "((n < 0 \<or> 999999 < n) \<and> ndigits n \<le> int_max_str_digits \<longrightarrow>
            set_debounce (PyInt n) ev s =
              (Inl (BoundaryError ''debounce time (ms) must be between 0ms and 999999ms!'' (PyInt n)), s)) \<and>
         ((n < 0 \<or> 999999999 < n) \<and> ndigits n \<le> int_max_str_digits \<longrightarrow>
            set_muempp (PyInt n) ev s =
              (Inl (BoundaryError
                 (mu # ''m per Pulse must be between 0'' @ mu # ''m/pulse and 999999999'' @ mu # ''m/pulse!'')
                 (PyInt n)), s)) \<and>
         (to_int (mul1000 v) = Inr mv \<and> ndigits mv \<le> int_max_str_digits \<and>
          \<not> (int_le_num 0 v \<and> num_le_int v 15) \<longrightarrow>
            set_vcrit v ev s = (Inl (BoundaryError ''V(crit) must be between 0V and 15V!'' v), s)) \<and>
         (b = 0 \<or> b = 999999 \<longrightarrow>
            snd (set_debounce (PyInt b) (Received bs) s) =
              s\<lparr>trace := trace s @ [PortWrite (CHR ''d'' # str_int b @ [newline]), PortRead bs]\<rparr> \<and>
            (strip (decode_ascii bs) = ''OK'' \<longrightarrow> fst (set_debounce (PyInt b) (Received bs) s) = Inr ())) \<and>
         (c = 0 \<or> c = 999999999 \<longrightarrow>
            snd (set_muempp (PyInt c) (Received bs) s) =
              s\<lparr>trace := trace s @ [PortWrite (CHR ''m'' # str_int c @ [newline]), PortRead bs]\<rparr> \<and>
            (strip (decode_ascii bs) = ''OK'' \<longrightarrow> fst (set_muempp (PyInt c) (Received bs) s) = Inr ())) \<and>
         (w = PyInt 0 \<or> w = PyInt 15 \<or> w = PyFloat (Fin 0) \<or> w = PyFloat (Fin 15) \<longrightarrow>
            (\<exists>k. to_int (mul1000 w) = Inr k \<and>
              snd (set_vcrit w (Received bs) s) =
                s\<lparr>trace := trace s @ [PortWrite (CHR ''t'' # str_int k @ [newline]), PortRead bs]\<rparr>) \<and>
            (strip (decode_ascii bs) = ''OK'' \<longrightarrow> fst (set_vcrit w (Received bs) s) = Inr ()))"
proof -
  have deb: "b = 0 \<or> b = 999999 \<Longrightarrow> 0 \<le> b \<and> b \<le> 999999" for b :: int by auto
  have mue: "c = 0 \<or> c = 999999999 \<Longrightarrow> 0 \<le> c \<and> c \<le> 999999999" for c :: int by auto
  have vcr: "w = PyInt 0 \<or> w = PyInt 15 \<or> w = PyFloat (Fin 0) \<or> w = PyFloat (Fin 15) \<Longrightarrow>
      int_le_num 0 w \<and> num_le_int w 15 \<and>
      (\<exists>k. to_int (mul1000 w) = Inr k \<and> ndigits k \<le> int_max_str_digits)" for w
    by (auto simp add: round_0 round_15000 trunc_def ndigits_small)
  show ?thesis
    using assms set_debounce_rejects [OF assms, of n ev] set_muempp_rejects [OF assms, of n ev]
      set_vcrit_rejects [OF assms, of v mv ev]
      set_debounce_sent [OF assms, of b bs] set_muempp_sent [OF assms, of c bs]
      set_vcrit_sent [OF assms, of w _ bs] deb [of b] mue [of c] vcr [of w]
    by blast
qed

lemma round_16000: "round_double 16000 = Fin 16000" by code_simp

lemma str_int_999999: "str_int 999999 = ''999999''"
  by (simp add: str_int_def str_nat.simps digit_char_def)

lemma str_int_15000: "str_int 15000 = ''15000''"
  by (simp add: str_int_def str_nat.simps digit_char_def)

text \<open>
  C1, amended, on a freshly opened port: the values 1000000, \<open>-1\<close> and 16.0 are refused,
  the values 999999, 0 and 15.0 are sent.
\<close>

theorem C1_bounds_inclusive_witness:
  "is_open (init\<lparr>is_open := True\<rparr>) \<and>
   ndigits 1000000 \<le> int_max_str_digits \<and> ndigits (- 1) \<le> int_max_str_digits \<and>
   set_debounce (PyInt 1000000) (Received ''OK\<newline>'') (init\<lparr>is_open := True\<rparr>) =
     (Inl (BoundaryError ''debounce time (ms) must be between 0ms and 999999ms!'' (PyInt 1000000)),
      init\<lparr>is_open := True\<rparr>) \<and>
   set_muempp (PyInt (- 1)) (Received ''OK\<newline>'') (init\<lparr>is_open := True\<rparr>) =
     (Inl (BoundaryError
        (mu # ''m per Pulse must be between 0'' @ mu # ''m/pulse and 999999999'' @ mu # ''m/pulse!'')
        (PyInt (- 1))), init\<lparr>is_open := True\<rparr>) \<and>
   to_int (mul1000 (PyFloat (Fin 16))) = Inr 16000 \<and> ndigits 16000 \<le> int_max_str_digits \<and>
   set_vcrit (PyFloat (Fin 16)) (Received ''OK\<newline>'') (init\<lparr>is_open := True\<rparr>) =
     (Inl (BoundaryError ''V(crit) must be between 0V and 15V!'' (PyFloat (Fin 16))),
      init\<lparr>is_open := True\<rparr>) \<and>
   set_debounce (PyInt 999999) (Received ''OK\<newline>'') (init\<lparr>is_open := True\<rparr>) =
     (Inr (), init\<lparr>is_open := True, trace := [PortWrite ''d999999\<newline>'', PortRead ''OK\<newline>'']\<rparr>) \<and>
   set_muempp (PyInt 0) (Received ''OK\<newline>'') (init\<lparr>is_open := True\<rparr>) =
     (Inr (), init\<lparr>is_open := True, trace := [PortWrite ''m0\<newline>'', PortRead ''OK\<newline>'']\<rparr>) \<and>
   set_vcrit (PyFloat (Fin 15)) (Received ''OK\<newline>'') (init\<lparr>is_open := True\<rparr>) =
     (Inr (), init\<lparr>is_open := True, trace := [PortWrite ''t15000\<newline>'', PortRead ''OK\<newline>'']\<rparr>)"
proof -
  have op: "is_open (init\<lparr>is_open := True\<rparr>)" by simp
  have ok: "strip (decode_ascii ''OK\<newline>'') = ''OK''" by (simp add: string_defs)
  have c16: "to_int (mul1000 (PyFloat (Fin 16))) = Inr 16000" by (simp add: round_16000 trunc_def)
  have c15: "to_int (mul1000 (PyFloat (Fin 15))) = Inr 15000" by (simp add: round_15000 trunc_def)
  have dg: "ndigits 1000000 \<le> int_max_str_digits" "ndigits (- 1) \<le> int_max_str_digits"
    "ndigits 16000 \<le> int_max_str_digits"
    by (simp_all add: ndigits_small)
  from C1_bounds_inclusive [OF op, of 1000000 "Received ''OK\<newline>''" "PyFloat (Fin 16)" 16000
      999999 "''OK\<newline>''" 0 "PyFloat (Fin 15)"]
    C1_bounds_inclusive [OF op, of "- 1" "Received ''OK\<newline>''" "PyFloat (Fin 16)" 16000
      999999 "''OK\<newline>''" 0 "PyFloat (Fin 15)"]
  show ?thesis
    using op ok c16 c15 dg
    by (simp add: str_int_999999 str_int_0 str_int_15000 newline_def init_def prod_eq_iff)
qed

subsection \<open>The command for the critical voltage\<close>

lemma round_half_even_le: "of_int (round_half_even y) \<le> y + 1"
proof -
  have "round_half_even y \<le> \<lfloor>y\<rfloor> + 1"
    by (simp add: round_half_even_def Let_def)
  then have "(of_int (round_half_even y) :: rat) \<le> of_int (\<lfloor>y\<rfloor> + 1)"
    by (simp only: of_int_le_iff)
  also have "\<dots> \<le> y + 1" by simp
  finally show ?thesis .
qed

lemma round_half_even_nonneg: "0 \<le> y \<Longrightarrow> 0 \<le> round_half_even y"
  by (simp add: round_half_even_def Let_def)

lemma bitlen_diff_le:
  assumes "0 < n" and "0 < d" and "of_int n / of_int d \<le> (15000 :: rat)"
  shows "bitlen n - bitlen d \<le> 14"
proof (rule ccontr)
  assume "\<not> bitlen n - bitlen d \<le> 14"
  then have big: "bitlen d + 15 \<le> bitlen n" by simp
  from bitlen_bounds [OF assms(2)] have du: "d < 2 ^ nat (bitlen d)" by simp
  from big have "2 ^ (nat (bitlen d + 15) - 1) \<le> n"
    using bitlen_nonneg [of d] by (simp add: bitlen_ge_iff_power)
  moreover have "nat (bitlen d + 15) - 1 = nat (bitlen d) + 14"
    using bitlen_nonneg [of d] by linarith
  ultimately have "2 ^ nat (bitlen d) * 2 ^ 14 \<le> n"
    by (simp add: power_add)
  moreover from du have "d * 2 ^ 14 < 2 ^ nat (bitlen d) * 2 ^ 14" by simp
  ultimately have "d * 2 ^ 14 < n" by linarith
  then have "(of_int (d * 2 ^ 14) :: rat) < of_int n"
    by (simp only: of_int_less_iff)
  then have "(16384 :: rat) < of_int n / of_int d"
    using assms(2) by (simp add: pos_less_divide_eq mult.commute)
  with assms(3) show False by simp
qed

text \<open>
  A product of at most 15000 in absolute value does not overflow when it is rounded, and
  the double it is rounded to is below \<open>2 ^ 14\<close> in absolute value.
\<close>

lemma round_double_bounded:
  assumes "\<bar>x\<bar> \<le> 15000"
  shows "\<exists>y. round_double x = Fin y \<and> \<bar>y\<bar> < 16384"
proof (cases "x = 0")
  case True
  then show ?thesis by (simp add: round_double_def)
next
  case False
  define a where "a = \<bar>x\<bar>"
  obtain n d where nd: "quotient_of a = (n, d)" by (cases "quotient_of a")
  have dpos: "0 < d" using quotient_of_denom_pos [OF nd] .
  have aeq: "a = of_int n / of_int d" using quotient_of_div [OF nd] .
  have apos: "0 < a" using False by (simp add: a_def)
  have npos: "0 < n" using apos dpos aeq by (simp add: zero_less_divide_iff)
  define k where "k = bitlen n - bitlen d"
  define e where "e = (if pow2 k \<le> a then k else k - 1)"
  define q where "q = max (e - 52) (- 1074)"
  define m where "m = round_half_even (a / pow2 q)"
  have "k \<le> 14"
    unfolding k_def using bitlen_diff_le [OF npos dpos] assms aeq a_def by simp
  then have qle: "q \<le> 0" by (simp add: q_def e_def)
  then have pq: "pow2 q = 1 / 2 ^ nat (- q)" by (simp add: pow2_def)
  have mnn: "0 \<le> m"
    unfolding m_def using apos by (intro round_half_even_nonneg) (simp add: pq)
  have "of_int m \<le> a / pow2 q + 1"
    unfolding m_def by (rule round_half_even_le)
  also have "\<dots> = a * 2 ^ nat (- q) + 1" by (simp add: pq)
  also have "\<dots> \<le> 15000 * 2 ^ nat (- q) + 1"
    using assms by (simp add: a_def)
  also have "\<dots> < 2 ^ 14 * 2 ^ nat (- q)"
  proof -
    have "(1 :: rat) \<le> 2 ^ nat (- q)" by simp
    then have "(1 :: rat) < 1384 * 2 ^ nat (- q)" by linarith
    then show ?thesis by simp
  qed
  finally have mlt: "(of_int m :: rat) < 2 ^ 14 * 2 ^ nat (- q)" .
  then have "(of_int m :: rat) < of_int (2 ^ (14 + nat (- q)))"
    by (simp add: power_add)
  then have "m < 2 ^ (14 + nat (- q))" by (simp only: of_int_less_iff)
  moreover have "nat (14 - q) = 14 + nat (- q)" using qle by simp
  ultimately have "bitlen m \<le> 14 - q"
    using qle by (simp add: bitlen_le_iff_power)
  then have "q + bitlen m \<le> 14" by simp
  then have fin: "\<not> 1024 < q + bitlen m" by simp
  have rd: "round_double x =
      (if 1024 < q + bitlen m then (if 0 < x then PInf else NInf)
       else Fin (sgn x * of_int m * pow2 q))"
    unfolding m_def q_def e_def k_def
    using False nd [unfolded a_def] by (simp add: round_double_def Let_def a_def)
  have "\<bar>sgn x * of_int m * pow2 q\<bar> = of_int m * pow2 q"
    using False mnn by (simp add: abs_mult pq abs_sgn_eq)
  also have "\<dots> < 16384"
    using mlt by (simp add: pq pos_divide_less_eq)
  finally show ?thesis using fin rd by simp
qed

lemma trunc_bounded: "\<bar>y\<bar> < 16384 \<Longrightarrow> \<bar>trunc y\<bar> < 10 ^ 10"
proof -
  assume b: "\<bar>y\<bar> < 16384"
  have "\<bar>trunc y\<bar> \<le> \<lfloor>\<bar>y\<bar>\<rfloor>"
    by (simp add: trunc_def abs_if)
  also from b have "\<dots> < 16384" by (simp add: floor_less_iff)
  finally show ?thesis by simp
qed

lemma in_bounds_converts:
  assumes "int_le_num 0 v" and "num_le_int v 15"
  shows "\<exists>mv. to_int (mul1000 v) = Inr mv \<and> ndigits mv \<le> int_max_str_digits"
proof (cases v)
  case (PyInt n)
  with assms show ?thesis by (simp add: ndigits_small)
next
  case (PyFloat f)
  show ?thesis
  proof (cases f)
    case (Fin x)
    with PyFloat assms have "\<bar>x * 1000\<bar> \<le> 15000" by simp
    from round_double_bounded [OF this] obtain y
      where y: "round_double (x * 1000) = Fin y" and small: "\<bar>y\<bar> < 16384" by blast
    from trunc_bounded [OF small] have "ndigits (trunc y) \<le> int_max_str_digits"
      by (rule ndigits_small)
    with PyFloat Fin y show ?thesis by simp
  qed (use PyFloat assms in simp_all)
qed

text \<open>
  For every value within the bounds, \<open>set_vcrit\<close> on an open port sends the letter
  \<open>t\<close> followed by \<open>int(value*1000)\<close>: for a float, the float product truncated towards
  zero.
\<close>

lemma set_vcrit_truncates:
  assumes "is_open s" and "int_le_num 0 v" and "num_le_int v 15"
  shows "\<exists>mv. to_int (mul1000 v) = Inr mv \<and>
           snd (set_vcrit v (Received bs) s) =
             s\<lparr>trace := trace s @ [PortWrite (CHR ''t'' # str_int mv @ [newline]), PortRead bs]\<rparr> \<and>
           (strip (decode_ascii bs) = ''OK'' \<longrightarrow> fst (set_vcrit v (Received bs) s) = Inr ()) \<and>
           (\<forall>x y. v = PyFloat (Fin x) \<and> round_double (x * 1000) = Fin y \<longrightarrow> mv = trunc y) \<and>
           (\<forall>n. v = PyInt n \<longrightarrow> mv = n * 1000)"
proof -
  from in_bounds_converts [OF assms(2,3)] obtain mv
    where conv: "to_int (mul1000 v) = Inr mv" and dg: "ndigits mv \<le> int_max_str_digits"
    by blast
  from conv set_vcrit_sent [OF assms conv dg, of bs] show ?thesis by auto
qed

lemma round_2_01:
  "round_double (201 / 100) = Fin (1131529406376837 / 562949953421312)"
  by code_simp

lemma py_float_2_01: "py_float ''2.01'' = Some (Fin (1131529406376837 / 562949953421312))"
  by (simp add: float_defs round_2_01)

lemma millivolts_2_01:
  "to_int (mul1000 (PyFloat (Fin (1131529406376837 / 562949953421312)))) = Inr 2009"
  by code_simp

lemma spec_round_2_01:
  "spec_round_millivolts (Fin (1131529406376837 / 562949953421312)) = Some 2010"
  by code_simp

lemma str_int_2009: "str_int 2009 = ''2009''"
  by (simp add: str_int_def str_nat.simps digit_char_def)

text \<open>
  Claim C2 at the value 2.01, the float that \<open>float('2.01')\<close> gives: its product with
  1000 is the double just below 2010, \<open>int()\<close> truncates it, and \<open>set_vcrit\<close> writes
  \<open>t2009\<close>, where \<open>round(value*1000)\<close> is 2010.
\<close>

theorem C2_truncation_drops_millivolt:
  "py_float ''2.01'' = Some (Fin (1131529406376837 / 562949953421312)) \<and>
   int_le_num 0 (PyFloat (Fin (1131529406376837 / 562949953421312))) \<and>
   num_le_int (PyFloat (Fin (1131529406376837 / 562949953421312))) 15 \<and>
   set_vcrit (PyFloat (Fin (1131529406376837 / 562949953421312))) (Received ''OK\<newline>'')
       (init\<lparr>is_open := True\<rparr>) =
     (Inr (), init\<lparr>is_open := True, trace := [PortWrite ''t2009\<newline>'', PortRead ''OK\<newline>'']\<rparr>) \<and>
   spec_round_millivolts (Fin (1131529406376837 / 562949953421312)) = Some 2010"
proof -
  have op: "is_open (init\<lparr>is_open := True\<rparr>)" by simp
  have lo: "int_le_num 0 (PyFloat (Fin (1131529406376837 / 562949953421312)))" by simp
  have hi: "num_le_int (PyFloat (Fin (1131529406376837 / 562949953421312))) 15" by simp
  have dg: "ndigits 2009 \<le> int_max_str_digits" by (simp add: ndigits_small)
  have ok: "strip (decode_ascii ''OK\<newline>'') = ''OK''" by (simp add: string_defs)
  from set_vcrit_sent [OF op lo hi millivolts_2_01 dg, of "''OK\<newline>''"] ok
  have "set_vcrit (PyFloat (Fin (1131529406376837 / 562949953421312))) (Received ''OK\<newline>'')
       (init\<lparr>is_open := True\<rparr>) =
     (Inr (), init\<lparr>is_open := True, trace := [PortWrite ''t2009\<newline>'', PortRead ''OK\<newline>'']\<rparr>)"
    by (simp add: str_int_2009 newline_def init_def prod_eq_iff)
  with py_float_2_01 lo hi spec_round_2_01 show ?thesis by blast
qed

end
